theory Spec2Isabelle
  imports Complex_Main "HOL-Library.Sublist"
begin

section \<open>Python values\<close>

text \<open>
  A Python \<open>str\<close> is a sequence of Unicode code points, and \<open>len\<close> counts code points.
  A string is therefore a list of code points (natural numbers); \<open>py\<close> turns an ASCII
  literal of the source into that representation.
\<close>

type_synonym pystr = "nat list"

definition py :: "string \<Rightarrow> pystr" where
  "py s = map of_char s"

text \<open>
  The exceptions the tools raise themselves (\<open>ValueError\<close>) or that the Python runtime
  raises on their behalf. \<open>RequestError\<close> stands for whatever \<open>requests.get\<close>,
  \<open>raise_for_status\<close> and \<open>response.json\<close> raise (timeout, HTTP status, invalid body);
  \<open>ParseError\<close> is what \<open>ET.fromstring\<close> raises on a body that is not well-formed.
\<close>

datatype exn =
    ValueError pystr
  | KeyError
  | IndexError
  | TypeError
  | AttributeError
  | RequestError pystr
  | ParseError pystr

text \<open>
  What \<open>response.json()\<close> returns. The tools never compute with a number: numbers are
  carried into the result, and tested for zero where a value is used as a condition.
\<close>

datatype json =
    JNull
  | JBool bool
  | JInt int
  | JFloat real
  | JStr pystr
  | JArr "json list"
  | JObj "(pystr \<times> json) list"

text \<open>Truth value of a Python object, as \<open>or\<close>, \<open>not\<close> and \<open>if\<close> use it.\<close>

fun truthy :: "json \<Rightarrow> bool" where
  "truthy JNull = False"
| "truthy (JBool b) = b"
| "truthy (JInt i) = (i \<noteq> 0)"
| "truthy (JFloat x) = (x \<noteq> 0)"
| "truthy (JStr s) = (s \<noteq> [])"
| "truthy (JArr xs) = (xs \<noteq> [])"
| "truthy (JObj kvs) = (kvs \<noteq> [])"

text \<open>\<open>a or b\<close>\<close>

definition py_or :: "json \<Rightarrow> json \<Rightarrow> json" where
  "py_or a b = (if truthy a then a else b)"

text \<open>\<open>d.get(key, default)\<close>: only a dict has the method.\<close>

fun py_get :: "json \<Rightarrow> pystr \<Rightarrow> json \<Rightarrow> exn + json" where
  "py_get (JObj kvs) key dflt = Inr (case map_of kvs key of None \<Rightarrow> dflt | Some v \<Rightarrow> v)"
| "py_get _ key dflt = Inl AttributeError"

text \<open>\<open>d[key]\<close> with a string key: a missing key raises, and so does anything but a dict.\<close>

fun py_item :: "json \<Rightarrow> pystr \<Rightarrow> exn + json" where
  "py_item (JObj kvs) key = (case map_of kvs key of None \<Rightarrow> Inl KeyError | Some v \<Rightarrow> Inr v)"
| "py_item _ key = Inl TypeError"

text \<open>
  \<open>xs[idx]\<close> with an index \<open>idx \<ge> 0\<close>: a list or a string raises \<open>IndexError\<close> out of range
  (a string gives its character as a string of length one), a parsed JSON object has only
  string keys, so an integer key is missing, and nothing else can be subscripted.
\<close>

fun py_index :: "json \<Rightarrow> nat \<Rightarrow> exn + json" where
  "py_index (JArr xs) idx = (if idx < length xs then Inr (xs ! idx) else Inl IndexError)"
| "py_index (JStr s) idx = (if idx < length s then Inr (JStr [s ! idx]) else Inl IndexError)"
| "py_index (JObj kvs) idx = Inl KeyError"
| "py_index _ idx = Inl TypeError"

text \<open>\<open>len(x)\<close>\<close>

fun py_len :: "json \<Rightarrow> exn + int" where
  "py_len (JArr xs) = Inr (int (length xs))"
| "py_len (JStr s) = Inr (int (length s))"
| "py_len (JObj kvs) = Inr (int (length kvs))"
| "py_len _ = Inl TypeError"

text \<open>The items a \<open>for\<close> loop sees: elements, characters, or the keys of a dict.\<close>

fun py_iter :: "json \<Rightarrow> exn + json list" where
  "py_iter (JArr xs) = Inr xs"
| "py_iter (JStr s) = Inr (map (\<lambda>c. JStr [c]) s)"
| "py_iter (JObj kvs) = Inr (map (\<lambda>kv. JStr (fst kv)) kvs)"
| "py_iter _ = Inl TypeError"

text \<open>Sequencing of computations that may raise.\<close>

definition bind :: "exn + 'a \<Rightarrow> ('a \<Rightarrow> exn + 'b) \<Rightarrow> exn + 'b" where
  "bind r f = (case r of Inl e \<Rightarrow> Inl e | Inr x \<Rightarrow> f x)"

section \<open>Strings\<close>

text \<open>The code points for which \<open>str.isspace\<close> holds; \<open>strip\<close> and \<open>split\<close> use them.\<close>

definition isspace :: "nat \<Rightarrow> bool" where
  "isspace c = ((9 \<le> c \<and> c \<le> 13) \<or> (28 \<le> c \<and> c \<le> 32) \<or> c = 133 \<or> c = 160
     \<or> c = 5760 \<or> (8192 \<le> c \<and> c \<le> 8202) \<or> c = 8232 \<or> c = 8233 \<or> c = 8239
     \<or> c = 8287 \<or> c = 12288)"

definition lstrip :: "pystr \<Rightarrow> pystr" where
  "lstrip s = dropWhile isspace s"

definition rstrip :: "pystr \<Rightarrow> pystr" where
  "rstrip s = rev (dropWhile isspace (rev s))"

definition strip :: "pystr \<Rightarrow> pystr" where
  "strip s = rstrip (lstrip s)"

text \<open>\<open>sep.join(parts)\<close>\<close>

fun join :: "pystr \<Rightarrow> pystr list \<Rightarrow> pystr" where
  "join sep [] = []"
| "join sep [x] = x"
| "join sep (x # y # ys) = x @ sep @ join sep (y # ys)"

text \<open>\<open>xs[:m]\<close>: a negative bound counts from the end.\<close>

definition slice_to :: "'a list \<Rightarrow> int \<Rightarrow> 'a list" where
  "slice_to xs m = (if 0 \<le> m then take (nat m) xs else take (nat (int (length xs) + m)) xs)"

text \<open>\<open>xs[m:]\<close>\<close>

definition slice_from :: "'a list \<Rightarrow> int \<Rightarrow> 'a list" where
  "slice_from xs m = (if 0 \<le> m then drop (nat m) xs else drop (nat (int (length xs) + m)) xs)"

section \<open>The outside world\<close>

text \<open>
  A timestamp as \<open>datetime.fromisoformat\<close> returns it: the wall-clock reading in
  microseconds since the epoch, and the offset from UTC in microseconds when the string
  carries one (\<open>tzinfo\<close> is \<open>None\<close> otherwise).
\<close>

record datetime =
  wall :: int
  tzinfo :: "int option"

text \<open>An element of a parsed feed: tag, text and children (\<open>xml.etree.ElementTree\<close>).\<close>

datatype element = Element (tag: pystr) (elem_text: "pystr option") (children: "element list")

text \<open>
  The services and library functions the tools call, as functions of what is sent to them:
  the three HTTP endpoints (with \<open>raise_for_status\<close> and the decoding of the body), the
  XML parser, the ISO timestamp parser, the clock, and the word separator expression of
  \<open>textwrap\<close>.
\<close>

record world =
  geocode_get :: "pystr \<Rightarrow> exn + json"
  forecast_get :: "json \<Rightarrow> json \<Rightarrow> bool \<Rightarrow> exn + json"
  news_get :: "pystr \<Rightarrow> pystr \<Rightarrow> pystr \<Rightarrow> pystr \<Rightarrow> exn + pystr"
  fromstring :: "pystr \<Rightarrow> exn + element"
  fromisoformat :: "pystr \<Rightarrow> exn + datetime"
  utcnow :: int
  wordsep_split :: "pystr \<Rightarrow> pystr list"

text \<open>What a call does besides returning: the requests it sends and the records it logs.\<close>

datatype event =
    GeocodeRequest pystr
  | ForecastRequest json json bool
  | NewsRequest pystr pystr pystr pystr
  | LogWarning pystr exn

section \<open>\<open>_resolve_location\<close>\<close>

text \<open>The parts of the display name: every part must be a string for \<open>join\<close>.\<close>

fun str_parts :: "json list \<Rightarrow> exn + pystr list" where
  "str_parts [] = Inr []"
| "str_parts (JStr s # ps) = bind (str_parts ps) (\<lambda>rest. Inr (s # rest))"
| "str_parts (p # ps) = Inl TypeError"

definition resolve_payload :: "pystr \<Rightarrow> json \<Rightarrow> exn + json \<times> json \<times> pystr" where
  "resolve_payload location payload =
     bind (py_get payload (py ''results'') JNull) (\<lambda>r.
       let results = py_or r (JArr []) in
       if \<not> truthy results
       then Inl (ValueError (py ''Unable to geocode location '' @ [39] @ location @ [39] @ py ''.''))
       else
         bind (py_index results 0) (\<lambda>top_hit.
         bind (py_get top_hit (py ''name'') JNull) (\<lambda>name.
         bind (py_get top_hit (py ''admin1'') JNull) (\<lambda>admin1.
         bind (py_get top_hit (py ''country'') JNull) (\<lambda>country.
         bind (str_parts (filter truthy [name, admin1, country])) (\<lambda>parts.
         bind (py_item top_hit (py ''latitude'')) (\<lambda>lat.
         bind (py_item top_hit (py ''longitude'')) (\<lambda>lon.
           Inr (lat, lon, join (py '', '') parts)))))))))"

text \<open>The request is sent first, whatever the string is.\<close>

definition resolve_location :: "world \<Rightarrow> pystr \<Rightarrow> (exn + json \<times> json \<times> pystr) \<times> event list" where
  "resolve_location w location =
     (bind (geocode_get w location) (resolve_payload location), [GeocodeRequest location])"

section \<open>\<open>fetch_weather_summary\<close>\<close>

record daily_summary =
  max_temp_c :: json
  min_temp_c :: json
  precip_probability :: json
  precipitation_total_mm :: json
  uv_index_max :: json
  wind_speed_max_kmh :: json

record daily_entry =
  date :: json
  summary :: daily_summary
  sunrise :: json
  sunset :: json

record current_conditions_t =
  temperature_c :: json
  windspeed_kmh :: json
  weather_code :: json
  observation_time :: json

record hourly_entry =
  hourly_time :: json
  hourly_temperature_c :: json
  hourly_precip_probability :: json
  relative_humidity :: json
  hourly_weather_code :: json

text \<open>The key \<open>hourly_outlook\<close> is set only on one path: \<open>None\<close> is the key being absent.\<close>

record WeatherSummary =
  location :: pystr
  latitude :: json
  longitude :: json
  current_conditions :: current_conditions_t
  daily_forecast :: "daily_entry list"
  source :: pystr
  hourly_outlook :: "hourly_entry list option"

text \<open>\<open>series.get(key, default)[idx]\<close>\<close>

definition series_at :: "json \<Rightarrow> pystr \<Rightarrow> json \<Rightarrow> nat \<Rightarrow> exn + json" where
  "series_at series key dflt idx = bind (py_get series key dflt) (\<lambda>arr. py_index arr idx)"

text \<open>The dict appended for one index, its values evaluated in the order of the source.\<close>

definition daily_entry_at :: "json \<Rightarrow> nat \<Rightarrow> exn + daily_entry" where
  "daily_entry_at daily idx =
     bind (series_at daily (py ''time'') (JArr []) idx) (\<lambda>d.
     bind (series_at daily (py ''temperature_2m_max'') (JArr [JNull]) idx) (\<lambda>tmax.
     bind (series_at daily (py ''temperature_2m_min'') (JArr [JNull]) idx) (\<lambda>tmin.
     bind (series_at daily (py ''precipitation_probability_max'') (JArr [JNull]) idx) (\<lambda>pp.
     bind (series_at daily (py ''precipitation_sum'') (JArr [JNull]) idx) (\<lambda>ps.
     bind (series_at daily (py ''uv_index_max'') (JArr [JNull]) idx) (\<lambda>uv.
     bind (series_at daily (py ''wind_speed_10m_max'') (JArr [JNull]) idx) (\<lambda>ws.
     bind (series_at daily (py ''sunrise'') (JArr [JNull]) idx) (\<lambda>sr.
     bind (series_at daily (py ''sunset'') (JArr [JNull]) idx) (\<lambda>ss.
       Inr \<lparr>date = d,
            summary = \<lparr>max_temp_c = tmax, min_temp_c = tmin, precip_probability = pp,
                       precipitation_total_mm = ps, uv_index_max = uv,
                       wind_speed_max_kmh = ws\<rparr>,
            sunrise = sr, sunset = ss\<rparr>)))))))))"

text \<open>\<open>for idx in range(days_available): daily_forecast.append(...)\<close>\<close>

fun daily_loop :: "json \<Rightarrow> nat list \<Rightarrow> daily_entry list \<Rightarrow> exn + daily_entry list" where
  "daily_loop daily [] acc = Inr acc"
| "daily_loop daily (idx # rest) acc =
     (case daily_entry_at daily idx of
        Inl e \<Rightarrow> Inl e
      | Inr entry \<Rightarrow> daily_loop daily rest (acc @ [entry]))"

text \<open>\<open>min(days, len(daily.get("time", [])))\<close>\<close>

definition days_available :: "int \<Rightarrow> json \<Rightarrow> exn + int" where
  "days_available days daily =
     bind (py_get daily (py ''time'') (JArr [])) (\<lambda>t.
     bind (py_len t) (\<lambda>n. Inr (min days n)))"

text \<open>\<open>range(n)\<close> is empty for \<open>n \<le> 0\<close>.\<close>

definition py_range :: "int \<Rightarrow> nat list" where
  "py_range n = [0..<nat n]"

definition current_conditions_of :: "json \<Rightarrow> exn + current_conditions_t" where
  "current_conditions_of current =
     bind (py_get current (py ''temperature'') JNull) (\<lambda>t.
     bind (py_get current (py ''windspeed'') JNull) (\<lambda>ws.
     bind (py_get current (py ''weathercode'') JNull) (\<lambda>wc.
     bind (py_get current (py ''time'') JNull) (\<lambda>tm.
       Inr \<lparr>temperature_c = t, windspeed_kmh = ws, weather_code = wc,
            observation_time = tm\<rparr>))))"

text \<open>
  The instant of a timestamp in microseconds since the epoch, UTC: a naive timestamp is
  taken as UTC (\<open>replace(tzinfo=utc)\<close>), an aware one is converted (\<open>astimezone(utc)\<close>).
\<close>

definition to_utc :: "datetime \<Rightarrow> int" where
  "to_utc t = (case tzinfo t of None \<Rightarrow> wall t | Some off \<Rightarrow> wall t - off)"

text \<open>\<open>fromisoformat\<close> accepts a string only.\<close>

fun parse_timestamp :: "world \<Rightarrow> json \<Rightarrow> exn + int" where
  "parse_timestamp w (JStr s) = bind (fromisoformat w s) (\<lambda>t. Inr (to_utc t))"
| "parse_timestamp w _ = Inl TypeError"

text \<open>\<open>timedelta(hours=24)\<close> in microseconds.\<close>

definition hours24 :: int where
  "hours24 = 86400000000"

definition hourly_entry_at :: "json \<Rightarrow> nat \<Rightarrow> json \<Rightarrow> exn + hourly_entry" where
  "hourly_entry_at hourly_data idx time_str =
     bind (series_at hourly_data (py ''temperature_2m'') (JArr [JNull]) idx) (\<lambda>t.
     bind (series_at hourly_data (py ''precipitation_probability'') (JArr [JNull]) idx) (\<lambda>pp.
     bind (series_at hourly_data (py ''relativehumidity_2m'') (JArr [JNull]) idx) (\<lambda>rh.
     bind (series_at hourly_data (py ''weathercode'') (JArr [JNull]) idx) (\<lambda>wc.
       Inr \<lparr>hourly_time = time_str, hourly_temperature_c = t,
            hourly_precip_probability = pp, relative_humidity = rh,
            hourly_weather_code = wc\<rparr>))))"

text \<open>
  \<open>for idx, time_str in enumerate(base_times)\<close>: an earlier timestamp is skipped
  (\<open>continue\<close>), the first one later than \<open>now + 24h\<close> ends the loop (\<open>break\<close>).
\<close>

fun hourly_loop ::
  "world \<Rightarrow> json \<Rightarrow> int \<Rightarrow> (nat \<times> json) list \<Rightarrow> hourly_entry list \<Rightarrow> exn + hourly_entry list"
where
  "hourly_loop w hourly_data now [] acc = Inr acc"
| "hourly_loop w hourly_data now ((idx, time_str) # rest) acc =
     (case parse_timestamp w time_str of
        Inl e \<Rightarrow> Inl e
      | Inr timestamp \<Rightarrow>
          if timestamp < now then hourly_loop w hourly_data now rest acc
          else if timestamp > now + hours24 then Inr acc
          else (case hourly_entry_at hourly_data idx time_str of
                  Inl e \<Rightarrow> Inl e
                | Inr entry \<Rightarrow> hourly_loop w hourly_data now rest (acc @ [entry])))"

definition enumerate_list :: "'a list \<Rightarrow> (nat \<times> 'a) list" where
  "enumerate_list xs = zip [0..<length xs] xs"

definition next_24_hours :: "world \<Rightarrow> json \<Rightarrow> exn + hourly_entry list" where
  "next_24_hours w hourly_data =
     bind (py_get hourly_data (py ''time'') (JArr [])) (\<lambda>base_times.
     bind (py_iter base_times) (\<lambda>items.
       hourly_loop w hourly_data (utcnow w) (enumerate_list items) []))"

text \<open>\<open>key in payload\<close>, for the payload that \<open>get\<close> has already been called on.\<close>

fun has_key :: "json \<Rightarrow> pystr \<Rightarrow> bool" where
  "has_key (JObj kvs) key = (map_of kvs key \<noteq> None)"
| "has_key _ key = False"

text \<open>Everything after the forecast response has been decoded.\<close>

definition summarize ::
  "world \<Rightarrow> json \<Rightarrow> json \<Rightarrow> pystr \<Rightarrow> int \<Rightarrow> bool \<Rightarrow> json \<Rightarrow> exn + WeatherSummary"
where
  "summarize w lat lon resolved_name days include_hourly payload =
     bind (py_get payload (py ''current_weather'') (JObj [])) (\<lambda>c.
     bind (py_get payload (py ''daily'') (JObj [])) (\<lambda>d.
     bind (days_available days (py_or d (JObj []))) (\<lambda>k.
     bind (daily_loop (py_or d (JObj [])) (py_range k) []) (\<lambda>forecast.
     bind (current_conditions_of (py_or c (JObj []))) (\<lambda>cc.
       let s = \<lparr>location = resolved_name, latitude = lat, longitude = lon,
                current_conditions = cc, daily_forecast = forecast,
                source = py ''Open-Meteo (https://open-meteo.com)'',
                hourly_outlook = None\<rparr>
       in if include_hourly \<and> has_key payload (py ''hourly'')
          then bind (py_item payload (py ''hourly'')) (\<lambda>hourly_data.
               bind (next_24_hours w hourly_data) (\<lambda>h.
                 Inr (s\<lparr>hourly_outlook := Some h\<rparr>)))
          else Inr s)))))"

definition fetch_weather_summary ::
  "world \<Rightarrow> pystr \<Rightarrow> int \<Rightarrow> bool \<Rightarrow> (exn + WeatherSummary) \<times> event list"
where
  "fetch_weather_summary w loc days include_hourly =
     (if loc = [] \<or> strip loc = [] then (Inl (ValueError (py ''location is required'')), [])
      else
        (case resolve_location w loc of
           (Inl e, evs) \<Rightarrow> (Inl e, evs)
         | (Inr (lat, lon, resolved_name), evs) \<Rightarrow>
             (bind (forecast_get w lat lon include_hourly)
                   (summarize w lat lon resolved_name days include_hourly),
              evs @ [ForecastRequest lat lon include_hourly])))"

section \<open>More string operations\<close>

text \<open>
  \<open>s.replace(old, new)\<close>: every occurrence of \<open>old\<close>, found from the left and not
  overlapping; with an empty \<open>old\<close>, \<open>new\<close> goes before every character and at the end.
\<close>

function replace :: "pystr \<Rightarrow> pystr \<Rightarrow> pystr \<Rightarrow> pystr" where
  "replace old new s =
     (if old = [] then new @ concat (map (\<lambda>c. c # new) s)
      else if s = [] then []
      else if prefix old s then new @ replace old new (drop (length old) s)
      else hd s # replace old new (tl s))"
  by pat_completeness auto
termination
  by (relation "measure (\<lambda>(old, new, s). length s)") auto

declare replace.simps [simp del]

text \<open>\<open>s.split()\<close>: the maximal runs of characters that are not whitespace.\<close>

fun split_words :: "pystr \<Rightarrow> pystr \<Rightarrow> pystr list" where
  "split_words cur [] = (if cur = [] then [] else [cur])"
| "split_words cur (c # cs) =
     (if isspace c then (if cur = [] then split_words [] cs else cur # split_words [] cs)
      else split_words (cur @ [c]) cs)"

definition split :: "pystr \<Rightarrow> pystr list" where
  "split s = split_words [] s"

text \<open>\<open>s.split(sep)\<close> for a separator of one character.\<close>

fun split_on :: "nat \<Rightarrow> pystr \<Rightarrow> pystr list" where
  "split_on sep [] = [[]]"
| "split_on sep (c # cs) =
     (if c = sep then [] # split_on sep cs
      else (case split_on sep cs of [] \<Rightarrow> [[c]] | p # ps \<Rightarrow> (c # p) # ps))"

text \<open>\<open>s.expandtabs(8)\<close>, from the given column.\<close>

fun expandtabs :: "nat \<Rightarrow> pystr \<Rightarrow> pystr" where
  "expandtabs col [] = []"
| "expandtabs col (c # cs) =
     (if c = 9 then replicate (8 - col mod 8) 32 @ expandtabs (col + (8 - col mod 8)) cs
      else if c = 10 \<or> c = 13 then c # expandtabs 0 cs
      else c # expandtabs (Suc col) cs)"

text \<open>\<open>s.rfind(c, 0, end)\<close> for one character: its last index in \<open>s[0:end]\<close>, or \<open>-1\<close>.\<close>

definition rfind :: "nat \<Rightarrow> pystr \<Rightarrow> int \<Rightarrow> int" where
  "rfind c s e =
     (let pre = slice_to s e; after = length (takeWhile (\<lambda>x. x \<noteq> c) (rev pre))
      in if after = length pre then - 1 else int (length pre) - 1 - int after)"

section \<open>\<open>textwrap.shorten\<close>\<close>

text \<open>
  \<open>shorten(text, width)\<close> builds \<open>TextWrapper(width=width, max_lines=1)\<close>, every other
  setting at its default (no indent, \<open>placeholder=' [...]'\<close>, \<open>drop_whitespace\<close>,
  \<open>break_long_words\<close>, \<open>break_on_hyphens\<close>, \<open>expand_tabs\<close>, \<open>replace_whitespace\<close>), and
  returns \<open>w.fill(' '.join(text.strip().split()))\<close>. The definitions follow the methods
  of that wrapper in the standard library, with these settings. The wrapper pops chunks
  from the end of a reversed list; here the list is kept in reading order and consumed
  from the front.
\<close>

definition placeholder :: pystr where
  "placeholder = py '' [...]''"

definition max_lines :: int where
  "max_lines = 1"

text \<open>\<open>_munge_whitespace\<close>: tabs expanded, then each of \<open>\t\n\x0b\x0c\r\<close> and the space
  made a space.\<close>

definition munge_whitespace :: "pystr \<Rightarrow> pystr" where
  "munge_whitespace t = map (\<lambda>c. if (9 \<le> c \<and> c \<le> 13) \<or> c = 32 then 32 else c) (expandtabs 0 t)"

text \<open>\<open>_split\<close>: the pieces \<open>wordsep_re.split\<close> gives, without the empty ones.\<close>

definition split_chunks :: "world \<Rightarrow> pystr \<Rightarrow> pystr list" where
  "split_chunks w t = filter (\<lambda>c. c \<noteq> []) (wordsep_split w (munge_whitespace t))"

text \<open>
  \<open>_handle_long_word\<close>: as much of the next chunk as fits goes on the line, cut after
  the last hyphen that has something other than hyphens before it, when there is one.
\<close>

definition break_end :: "pystr \<Rightarrow> int \<Rightarrow> int" where
  "break_end chunk space_left =
     (let hyphen = rfind 45 chunk space_left
      in if int (length chunk) > space_left \<and> hyphen > 0
            \<and> list_ex (\<lambda>c. c \<noteq> 45) (slice_to chunk hyphen)
         then hyphen + 1 else space_left)"

definition handle_long_word ::
  "pystr list \<Rightarrow> pystr list \<Rightarrow> int \<Rightarrow> int \<Rightarrow> pystr list \<times> pystr list"
where
  "handle_long_word chunks cur_line cur_len width =
     (let space_left = (if width < 1 then 1 else width - cur_len);
          chunk = hd chunks;
          e = break_end chunk space_left
      in (cur_line @ [slice_to chunk e], slice_from chunk e # tl chunks))"

text \<open>First chunk of a line that is whitespace: dropped, except at the very beginning.\<close>

definition start_line :: "pystr list \<Rightarrow> pystr list \<Rightarrow> pystr list" where
  "start_line lines chunks = (if strip (hd chunks) = [] \<and> lines \<noteq> [] then tl chunks else chunks)"

text \<open>The inner \<open>while chunks\<close>: chunks go on the line as long as they fit.\<close>

fun fill_line :: "int \<Rightarrow> pystr list \<Rightarrow> int \<Rightarrow> pystr list \<Rightarrow> pystr list \<times> int \<times> pystr list" where
  "fill_line width cur_line cur_len [] = (cur_line, cur_len, [])"
| "fill_line width cur_line cur_len (c # cs) =
     (if cur_len + int (length c) \<le> width
      then fill_line width (cur_line @ [c]) (cur_len + int (length c)) cs
      else (cur_line, cur_len, c # cs))"

text \<open>The next chunk is too long for any line.\<close>

fun long_word :: "int \<Rightarrow> pystr list \<times> int \<times> pystr list \<Rightarrow> pystr list \<times> int \<times> pystr list" where
  "long_word width (cur_line, cur_len, chunks) =
     (if chunks \<noteq> [] \<and> int (length (hd chunks)) > width
      then (case handle_long_word chunks cur_line cur_len width of
              (cur_line', chunks') \<Rightarrow> (cur_line', sum_list (map (\<lambda>c. int (length c)) cur_line'), chunks'))
      else (cur_line, cur_len, chunks))"

text \<open>The last chunk of the line is whitespace: dropped.\<close>

fun drop_trailing :: "pystr list \<times> int \<times> pystr list \<Rightarrow> pystr list \<times> int \<times> pystr list" where
  "drop_trailing (cur_line, cur_len, chunks) =
     (if cur_line \<noteq> [] \<and> strip (last cur_line) = []
      then (butlast cur_line, cur_len - int (length (last cur_line)), chunks)
      else (cur_line, cur_len, chunks))"

text \<open>
  The line does not end the text: chunks are taken off its end (the argument is the line
  reversed) until the placeholder fits after a chunk that is not whitespace; when none is
  left, the placeholder goes on the previous line, or on a line of its own.
\<close>

fun truncate_line :: "int \<Rightarrow> pystr list \<Rightarrow> pystr list \<Rightarrow> int \<Rightarrow> pystr list" where
  "truncate_line width lines [] cur_len =
     (if lines \<noteq> [] \<and> int (length (rstrip (last lines))) + int (length placeholder) \<le> width
      then butlast lines @ [rstrip (last lines) @ placeholder]
      else lines @ [lstrip placeholder])"
| "truncate_line width lines (c # rev_line) cur_len =
     (if strip c \<noteq> [] \<and> cur_len + int (length placeholder) \<le> width
      then lines @ [concat (rev (c # rev_line)) @ placeholder]
      else truncate_line width lines rev_line (cur_len - int (length c)))"

text \<open>One pass of the outer \<open>while chunks\<close>: it goes on, or leaves the loop (\<open>break\<close>).\<close>

datatype step = Continue "pystr list" "pystr list" | Break "pystr list"

definition wrap_line :: "int \<Rightarrow> pystr list \<Rightarrow> pystr list \<Rightarrow> step" where
  "wrap_line width lines chunks =
     (case drop_trailing (long_word width (fill_line width [] 0 (start_line lines chunks))) of
        (cur_line, cur_len, rest) \<Rightarrow>
          if cur_line \<noteq> [] then
            if int (length lines) + 1 < max_lines
               \<or> ((rest = [] \<or> (length rest = 1 \<and> strip (hd rest) = [])) \<and> cur_len \<le> width)
            then Continue (lines @ [concat cur_line]) rest
            else Break (truncate_line width lines (rev cur_line) cur_len)
          else Continue lines rest)"

text \<open>
  Every pass of the outer loop takes something off the chunks: a chunk, or the front of a
  chunk that is too long. The loop therefore ends.
\<close>

definition weight :: "pystr list \<Rightarrow> nat" where
  "weight cs = sum_list (map (\<lambda>c. Suc (length c)) cs)"

lemma weight_Nil [simp]: "weight [] = 0"
  by (simp add: weight_def)

lemma weight_Cons [simp]: "weight (c # cs) = Suc (length c) + weight cs"
  by (simp add: weight_def)

lemma weight_append [simp]: "weight (xs @ ys) = weight xs + weight ys"
  by (simp add: weight_def)

lemma fill_line_split:
  "fill_line width cl len cs = (cl', len', rest) \<Longrightarrow>
     \<exists>taken. cl' = cl @ taken \<and> cs = taken @ rest
        \<and> len' = len + int (length (concat taken))
        \<and> (rest = [] \<or> len' + int (length (hd rest)) > width)"
proof (induction cs arbitrary: cl len)
  case Nil
  then show ?case by simp
next
  case (Cons c cs)
  show ?case
  proof (cases "len + int (length c) \<le> width")
    case True
    with Cons.prems have "fill_line width (cl @ [c]) (len + int (length c)) cs = (cl', len', rest)"
      by simp
    from Cons.IH[OF this] obtain taken where
      t: "cl' = (cl @ [c]) @ taken" "cs = taken @ rest"
         "len' = len + int (length c) + int (length (concat taken))"
         "rest = [] \<or> len' + int (length (hd rest)) > width"
      by blast
    show ?thesis
      by (rule exI[of _ "c # taken"]) (use t in simp)
  next
    case False
    with Cons.prems show ?thesis
      by (intro exI[of _ "[]"]) auto
  qed
qed

lemma slice_from_length: "length (slice_from xs m) \<le> length xs"
  by (simp add: slice_from_def)

lemma slice_from_shorter: "0 < m \<Longrightarrow> xs \<noteq> [] \<Longrightarrow> length (slice_from xs m) < length xs"
  by (simp add: slice_from_def)

lemma break_end_pos: "0 < sl \<Longrightarrow> 0 < break_end chunk sl"
  by (simp add: break_end_def Let_def)

lemma handle_long_word_snd:
  "snd (handle_long_word chunks cl len width) =
     slice_from (hd chunks) (break_end (hd chunks) (if width < 1 then 1 else width - len)) # tl chunks"
  by (simp add: handle_long_word_def Let_def)

lemma handle_long_word_weight:
  assumes "chunks \<noteq> []"
  shows "weight (snd (handle_long_word chunks cl len width)) \<le> weight chunks"
proof -
  obtain c cs where c: "chunks = c # cs" using assms by (cases chunks) auto
  show ?thesis
    unfolding handle_long_word_snd c using slice_from_length[of c] by simp
qed

lemma handle_long_word_progress:
  assumes "chunks \<noteq> []" "0 < width" "int (length (hd chunks)) > width"
  shows "weight (snd (handle_long_word chunks cl 0 width)) < weight chunks"
proof -
  obtain c cs where c: "chunks = c # cs" using assms(1) by (cases chunks) auto
  have ne: "c \<noteq> []" using assms(2,3) c by auto
  have "0 < break_end c width" using assms(2) by (rule break_end_pos)
  from slice_from_shorter[OF this ne] show ?thesis
    unfolding handle_long_word_snd c using assms(2) by simp
qed

lemma start_line_weight: "chunks \<noteq> [] \<Longrightarrow> weight (start_line lines chunks) \<le> weight chunks"
  by (cases chunks) (simp_all add: start_line_def)

lemma drop_trailing_rest: "snd (snd (drop_trailing x)) = snd (snd x)"
  by (cases x) simp

lemma long_word_rest:
  "snd (snd (long_word width (cl, len, rest))) =
     (if rest \<noteq> [] \<and> int (length (hd rest)) > width
      then snd (handle_long_word rest cl len width) else rest)"
  by (simp add: case_prod_unfold)

lemma line_progress:
  assumes "0 < width" "a \<noteq> []"
  shows "weight (snd (snd (drop_trailing (long_word width (fill_line width [] 0 a))))) < weight a"
proof -
  obtain cl len rest where f: "fill_line width [] 0 a = (cl, len, rest)"
    by (cases "fill_line width [] 0 a") auto
  from fill_line_split[OF f] obtain taken where
    t: "cl = taken" "a = taken @ rest" "len = int (length (concat taken))"
       "rest = [] \<or> len + int (length (hd rest)) > width"
    by auto
  have goal: "?thesis \<longleftrightarrow> weight (snd (snd (long_word width (cl, len, rest)))) < weight a"
    by (simp only: drop_trailing_rest f)
  show ?thesis
  proof (cases "taken = []")
    case True
    have r: "rest = a" using t(2) True by simp
    have l0: "len = 0" using t(3) True by simp
    have "a = [] \<or> int (length (hd a)) > width" using t(4) unfolding r l0 by simp
    then have long: "int (length (hd a)) > width" using assms(2) by simp
    have "snd (snd (long_word width (cl, len, rest))) = snd (handle_long_word a cl 0 width)"
      unfolding long_word_rest r l0 using assms(2) long by simp
    then show ?thesis
      unfolding goal using handle_long_word_progress[OF assms(2,1) long, of cl] by simp
  next
    case False
    then have lt: "weight rest < weight a" unfolding t(2) by (cases taken) simp_all
    have "weight (snd (snd (long_word width (cl, len, rest)))) \<le> weight rest"
      unfolding long_word_rest using handle_long_word_weight[of rest cl len width] by simp
    with lt show ?thesis unfolding goal by simp
  qed
qed

lemma wrap_line_rest:
  "wrap_line width lines chunks = Continue ls cs \<Longrightarrow>
     cs = snd (snd (drop_trailing (long_word width (fill_line width [] 0 (start_line lines chunks)))))"
  unfolding wrap_line_def by (simp split: prod.splits if_splits)

lemma wrap_line_progress:
  assumes "wrap_line width lines chunks = Continue ls cs" "0 < width" "chunks \<noteq> []"
  shows "weight cs < weight chunks"
proof (cases "start_line lines chunks = []")
  case True
  then have "cs = []" using wrap_line_rest[OF assms(1)] by simp
  then show ?thesis using assms(3) by (cases chunks) auto
next
  case False
  from line_progress[OF assms(2) False] start_line_weight[OF assms(3), of lines]
  show ?thesis unfolding wrap_line_rest[OF assms(1)] by simp
qed

text \<open>
  The outer \<open>while chunks\<close>. \<open>_wrap_chunks\<close> raises before the loop when the width is
  not positive, so the loop is never entered with such a width.
\<close>

function wrap_loop :: "int \<Rightarrow> pystr list \<Rightarrow> pystr list \<Rightarrow> pystr list" where
  "wrap_loop width lines chunks =
     (if chunks = [] \<or> width \<le> 0 then lines
      else (case wrap_line width lines chunks of
              Break ls \<Rightarrow> ls
            | Continue ls cs \<Rightarrow> wrap_loop width ls cs))"
  by pat_completeness auto
termination
proof (relation "measure (\<lambda>(width, lines, chunks). weight chunks)")
  show "wf (measure (\<lambda>(width, lines, chunks). weight chunks))" by simp
next
  fix width :: int and lines chunks :: "pystr list" and ls cs
  assume "\<not> (chunks = [] \<or> width \<le> 0)" "wrap_line width lines chunks = Continue ls cs"
  then show "((width, ls, cs), (width, lines, chunks)) \<in> measure (\<lambda>(width, lines, chunks). weight chunks)"
    using wrap_line_progress[of width lines chunks ls cs] by simp
qed

declare wrap_loop.simps [simp del]

text \<open>\<open>_wrap_chunks\<close>: the two checks before the loop, then the loop.\<close>

definition wrap_chunks :: "int \<Rightarrow> pystr list \<Rightarrow> exn + pystr list" where
  "wrap_chunks width chunks =
     (if width \<le> 0 then Inl (ValueError (py ''invalid width (must be > 0)''))
      else if int (length (lstrip placeholder)) > width
      then Inl (ValueError (py ''placeholder too large for max width''))
      else Inr (wrap_loop width [] chunks))"

definition shorten :: "world \<Rightarrow> pystr \<Rightarrow> int \<Rightarrow> exn + pystr" where
  "shorten w t width =
     bind (wrap_chunks width (split_chunks w (join (py '' '') (split (strip t)))))
          (\<lambda>lines. Inr (join [10] lines))"

section \<open>Feed elements\<close>

text \<open>\<open>Element.iter()\<close>: the element and its descendants, in document order.\<close>

fun iter :: "element \<Rightarrow> element list" where
  "iter (Element t x cs) = Element t x cs # concat (map iter cs)"

text \<open>\<open>e.findall(".//t")\<close>: the descendants with that tag, the element itself excluded.\<close>

definition findall_descendants :: "element \<Rightarrow> pystr \<Rightarrow> element list" where
  "findall_descendants e t = filter (\<lambda>x. tag x = t) (concat (map iter (children e)))"

text \<open>
  \<open>e.findtext(t)\<close>: the text of the first child with that tag, the empty string when
  that child has no text, \<open>None\<close> when there is no such child.
\<close>

definition findtext :: "element \<Rightarrow> pystr \<Rightarrow> pystr option" where
  "findtext e t =
     (case find (\<lambda>c. tag c = t) (children e) of
        None \<Rightarrow> None
      | Some c \<Rightarrow> Some (case elem_text c of None \<Rightarrow> [] | Some s \<Rightarrow> s))"

text \<open>\<open>x or ""\<close>\<close>

definition or_empty :: "pystr option \<Rightarrow> pystr" where
  "or_empty x = (case x of None \<Rightarrow> [] | Some s \<Rightarrow> s)"

section \<open>\<open>fetch_safety_brief\<close>\<close>

record SafetyHeadline =
  title :: pystr
  link :: pystr
  published :: pystr
  snippet :: pystr

record SafetyBrief =
  brief_location :: pystr
  headlines :: "SafetyHeadline list"
  brief_source :: pystr

text \<open>
  The body of the loop for one item: the four texts, the snippet, and then the test
  that skips the item (\<open>continue\<close>, here \<open>None\<close>).
\<close>

definition headline_of :: "world \<Rightarrow> element \<Rightarrow> exn + SafetyHeadline option" where
  "headline_of w item =
     (let t = strip (or_empty (findtext item (py ''title'')));
          l = strip (or_empty (findtext item (py ''link'')));
          pub_date = strip (or_empty (findtext item (py ''pubDate'')));
          description = strip (or_empty (findtext item (py ''description'')))
      in bind (shorten w (replace [10] (py '' '') (replace (py ''<br>'') (py '' '') description)) 240)
           (\<lambda>sn. if t = [] \<or> l = [] then Inr None
                  else Inr (Some \<lparr>title = t, link = l, published = pub_date, snippet = sn\<rparr>)))"

fun headline_loop :: "world \<Rightarrow> element list \<Rightarrow> SafetyHeadline list \<Rightarrow> exn + SafetyHeadline list" where
  "headline_loop w [] acc = Inr acc"
| "headline_loop w (item # rest) acc =
     (case headline_of w item of
        Inl e \<Rightarrow> Inl e
      | Inr None \<Rightarrow> headline_loop w rest acc
      | Inr (Some h) \<Rightarrow> headline_loop w rest (acc @ [h]))"

text \<open>The body of the \<open>try\<close>: the items are cut to \<open>[:max_items]\<close> before the loop.\<close>

definition parse_headlines :: "world \<Rightarrow> pystr \<Rightarrow> int \<Rightarrow> exn + SafetyHeadline list" where
  "parse_headlines w body max_items =
     bind (fromstring w body) (\<lambda>tree.
       headline_loop w (slice_to (findall_descendants tree (py ''item'')) max_items) [])"

definition news_query :: "pystr \<Rightarrow> pystr" where
  "news_query loc = loc @ py '' travel warning OR safety advisory OR disruption OR protest''"

definition fetch_safety_brief ::
  "world \<Rightarrow> pystr \<Rightarrow> int \<Rightarrow> pystr \<Rightarrow> (exn + SafetyBrief) \<times> event list"
where
  "fetch_safety_brief w loc max_items language =
     (if loc = [] \<or> strip loc = [] then (Inl (ValueError (py ''location is required'')), [])
      else
        (let q = news_query loc;
             gl = last (split_on 45 language);
             ceid = replace (py ''-'') (py '':'') language;
             sent = [NewsRequest q language gl ceid]
         in case news_get w q language gl ceid of
              Inl e \<Rightarrow> (Inl e, sent)
            | Inr body \<Rightarrow>
                (case parse_headlines w body max_items of
                   Inl exc \<Rightarrow> (Inl exc, sent @ [LogWarning loc exc])
                 | Inr hs \<Rightarrow>
                     if hs = []
                     then (Inl (ValueError (py ''Unable to find recent safety headlines for ''
                                            @ [39] @ loc @ [39] @ py ''.'')), sent)
                     else (Inr \<lparr>brief_location = loc, headlines = hs,
                                 brief_source = py ''Google News RSS''\<rparr>, sent))))"

section \<open>Concrete worlds\<close>

text \<open>
  A world that serves fixed responses: a geocoding payload, a forecast payload, the
  result of parsing the feed, and the time of the call. Timestamps are read from a small
  table; the word separator splits at the boundaries between spaces and other characters.
\<close>

definition jaipur_hit :: json where
  "jaipur_hit = JObj [(py ''results'', JArr [JObj [
      (py ''name'', JStr (py ''Jaipur'')), (py ''admin1'', JStr (py ''Rajasthan'')),
      (py ''country'', JStr (py ''India'')),
      (py ''latitude'', JFloat 26.9), (py ''longitude'', JFloat 75.8)]])]"

definition clock_table :: "(pystr \<times> datetime) list" where
  "clock_table =
     [(py ''2024-01-01T00:00'', \<lparr>wall = 0, tzinfo = None\<rparr>),
      (py ''2024-01-01T12:00'', \<lparr>wall = 43200000000, tzinfo = None\<rparr>),
      (py ''2024-01-02T12:00'', \<lparr>wall = 129600000000, tzinfo = None\<rparr>),
      (py ''2024-01-02T17:30+05:30'', \<lparr>wall = 149400000000, tzinfo = Some 19800000000\<rparr>),
      (py ''2024-01-03T00:00'', \<lparr>wall = 172800000000, tzinfo = None\<rparr>)]"

fun simple_split :: "pystr \<Rightarrow> pystr \<Rightarrow> pystr list" where
  "simple_split cur [] = [cur]"
| "simple_split cur (c # cs) =
     (if cur = [] \<or> (last cur = 32) = (c = 32) then simple_split (cur @ [c]) cs
      else cur # simple_split [c] cs)"

definition served :: "json \<Rightarrow> json \<Rightarrow> exn + element \<Rightarrow> int \<Rightarrow> world" where
  "served geo forecast feed now =
     \<lparr>geocode_get = (\<lambda>name. Inr geo),
      forecast_get = (\<lambda>lat lon hourly. Inr forecast),
      news_get = (\<lambda>q hl gl ceid. Inr (py ''<rss/>'')),
      fromstring = (\<lambda>body. feed),
      fromisoformat = (\<lambda>s. case map_of clock_table s of
                           None \<Rightarrow> Inl (ValueError (py ''Invalid isoformat string''))
                         | Some t \<Rightarrow> Inr t),
      utcnow = now,
      wordsep_split = simple_split []\<rparr>"

definition no_feed :: "exn + element" where
  "no_feed = Inl (ParseError (py ''syntax error: line 1, column 0''))"

text \<open>Forecast payloads: dates alone, and a series shorter than the dates.\<close>

definition two_dates :: json where
  "two_dates = JArr [JStr (py ''2024-01-01''), JStr (py ''2024-01-02'')]"

definition dates_only :: json where
  "dates_only = JObj [(py ''daily'', JObj [(py ''time'', two_dates)])]"

definition short_series :: json where
  "short_series = JObj [(py ''daily'', JObj [
      (py ''time'', two_dates),
      (py ''temperature_2m_max'', JArr [JFloat 24.5, JFloat 25.1]),
      (py ''temperature_2m_min'', JArr [JFloat 9.8])])]"

definition no_values :: daily_summary where
  "no_values = \<lparr>max_temp_c = JNull, min_temp_c = JNull, precip_probability = JNull,
      precipitation_total_mm = JNull, uv_index_max = JNull, wind_speed_max_kmh = JNull\<rparr>"

definition jaipur_one_day :: WeatherSummary where
  "jaipur_one_day =
     \<lparr>location = py ''Jaipur, Rajasthan, India'', latitude = JFloat 26.9, longitude = JFloat 75.8,
      current_conditions = \<lparr>temperature_c = JNull, windspeed_kmh = JNull, weather_code = JNull,
                              observation_time = JNull\<rparr>,
      daily_forecast = [\<lparr>date = JStr (py ''2024-01-01''), summary = no_values,
                          sunrise = JNull, sunset = JNull\<rparr>],
      source = py ''Open-Meteo (https://open-meteo.com)'',
      hourly_outlook = None\<rparr>"

definition jaipur_requests :: "bool \<Rightarrow> event list" where
  "jaipur_requests hourly =
     [GeocodeRequest (py ''Jaipur''), ForecastRequest (JFloat 26.9) (JFloat 75.8) hourly]"

text \<open>A forecast with an hourly object; the third timestamp carries an offset.\<close>

definition hourly_times :: "json list" where
  "hourly_times = [JStr (py ''2024-01-01T00:00''), JStr (py ''2024-01-01T12:00''),
                   JStr (py ''2024-01-02T17:30+05:30''), JStr (py ''2024-01-03T00:00'')]"

definition hourly_object :: json where
  "hourly_object = JObj [
      (py ''time'', JArr hourly_times),
      (py ''temperature_2m'', JArr [JInt 12, JInt 21, JInt 20, JInt 11]),
      (py ''precipitation_probability'', JArr [JInt 0, JInt 5, JInt 10, JInt 0]),
      (py ''relativehumidity_2m'', JArr [JInt 40, JInt 35, JInt 38, JInt 50]),
      (py ''weathercode'', JArr [JInt 0, JInt 1, JInt 2, JInt 3])]"

definition hourly_series :: json where
  "hourly_series = JObj [
      (py ''daily'', JObj [(py ''time'', two_dates)]),
      (py ''hourly'', hourly_object)]"

definition at_noon :: hourly_entry where
  "at_noon = \<lparr>hourly_time = JStr (py ''2024-01-01T12:00''), hourly_temperature_c = JInt 21,
      hourly_precip_probability = JInt 5, relative_humidity = JInt 35,
      hourly_weather_code = JInt 1\<rparr>"

definition next_noon :: hourly_entry where
  "next_noon = \<lparr>hourly_time = JStr (py ''2024-01-02T17:30+05:30''), hourly_temperature_c = JInt 20,
      hourly_precip_probability = JInt 10, relative_humidity = JInt 38,
      hourly_weather_code = JInt 2\<rparr>"

definition noon :: int where
  "noon = 43200000000"

definition later :: int where
  "later = 172800000001"

section \<open>Evaluation and unfolding\<close>

lemmas weather_eval =
  fetch_weather_summary_def resolve_location_def resolve_payload_def served_def
  jaipur_hit_def dates_only_def two_dates_def short_series_def summarize_def days_available_def
  daily_entry_at_def series_at_def current_conditions_of_def py_range_def py_or_def bind_def
  py_def strip_def lstrip_def rstrip_def isspace_def jaipur_one_day_def no_values_def
  jaipur_requests_def upt_rec

lemmas hourly_eval =
  weather_eval hourly_series_def hourly_object_def hourly_times_def at_noon_def next_noon_def noon_def next_24_hours_def
  hourly_entry_at_def enumerate_list_def clock_table_def to_utc_def hours24_def

lemma strip_Nil [simp]: "strip [] = []"
  by (simp add: strip_def lstrip_def rstrip_def)

lemma bind_Inr_iff: "bind r f = Inr y \<longleftrightarrow> (\<exists>x. r = Inr x \<and> f x = Inr y)"
  by (cases r) (simp_all add: bind_def)

lemma bind_Inr [simp]: "bind (Inr x) f = f x"
  by (simp add: bind_def)

lemma bind_Inl [simp]: "bind (Inl e) f = Inl e"
  by (simp add: bind_def)

lemma fetch_weather_summary_Inr:
  assumes "fst (fetch_weather_summary w loc days h) = Inr s"
  shows "\<exists>lat lon name payload. fst (resolve_location w loc) = Inr (lat, lon, name)
           \<and> forecast_get w lat lon h = Inr payload
           \<and> summarize w lat lon name days h payload = Inr s"
proof -
  have ne: "\<not> (loc = [] \<or> strip loc = [])"
    using assms by (auto simp: fetch_weather_summary_def)
  obtain r evs where r: "resolve_location w loc = (r, evs)"
    by (cases "resolve_location w loc") auto
  show ?thesis
  proof (cases r)
    case (Inl e)
    then show ?thesis using assms ne r by (simp add: fetch_weather_summary_def)
  next
    case (Inr t)
    obtain lat lon name where t: "t = (lat, lon, name)" by (cases t) auto
    have "bind (forecast_get w lat lon h) (summarize w lat lon name days h) = Inr s"
      using assms ne r Inr t by (simp add: fetch_weather_summary_def)
    then show ?thesis using r Inr t by (auto simp: bind_Inr_iff)
  qed
qed

lemma summarize_Inr:
  assumes "summarize w lat lon name days h payload = Inr s"
  shows "\<exists>c d k cc. py_get payload (py ''current_weather'') (JObj []) = Inr c
           \<and> py_get payload (py ''daily'') (JObj []) = Inr d
           \<and> days_available days (py_or d (JObj [])) = Inr k
           \<and> daily_loop (py_or d (JObj [])) (py_range k) [] = Inr (daily_forecast s)
           \<and> current_conditions_of (py_or c (JObj [])) = Inr cc
           \<and> location s = name \<and> latitude s = lat \<and> longitude s = lon
           \<and> current_conditions s = cc
           \<and> source s = py ''Open-Meteo (https://open-meteo.com)''"
  using assms unfolding summarize_def Let_def
  by (auto simp: bind_Inr_iff split: if_splits)

lemma daily_loop_result:
  "daily_loop d idxs acc = Inr r \<Longrightarrow>
     length r = length acc + length idxs \<and> take (length acc) r = acc
     \<and> (\<forall>i<length idxs. daily_entry_at d (idxs ! i) = Inr (r ! (length acc + i)))"
proof (induction idxs arbitrary: acc)
  case Nil
  then show ?case by simp
next
  case (Cons idx rest)
  then obtain e where e: "daily_entry_at d idx = Inr e"
    and l: "daily_loop d rest (acc @ [e]) = Inr r"
    by (auto split: sum.splits)
  from Cons.IH[OF l] have
    ih: "length r = Suc (length acc) + length rest" "take (Suc (length acc)) r = acc @ [e]"
        "\<And>i. i < length rest \<Longrightarrow> daily_entry_at d (rest ! i) = Inr (r ! (Suc (length acc) + i))"
    by auto
  have "take (length acc) (take (Suc (length acc)) r) = take (length acc) (acc @ [e])"
    using ih(2) by simp
  then have tk: "take (length acc) r = acc" by simp
  have r0: "r ! length acc = e"
    using ih(2) by (metis nth_append_length nth_take lessI)
  show ?case
  proof (intro conjI allI impI)
    show "length r = length acc + length (idx # rest)" using ih(1) by simp
    show "take (length acc) r = acc" by (rule tk)
    fix i assume "i < length (idx # rest)"
    then show "daily_entry_at d ((idx # rest) ! i) = Inr (r ! (length acc + i))"
      using e r0 ih(3) by (cases i) auto
  qed
qed

lemma daily_entry_at_date:
  "daily_entry_at d idx = Inr e \<Longrightarrow> series_at d (py ''time'') (JArr []) idx = Inr (date e)"
  unfolding daily_entry_at_def by (auto simp: bind_Inr_iff)

lemma hourly_entry_at_time:
  "hourly_entry_at hdata idx time_str = Inr e \<Longrightarrow> hourly_time e = time_str"
  unfolding hourly_entry_at_def by (auto simp: bind_Inr_iff)

lemma hourly_loop_result:
  "hourly_loop w hdata now items acc = Inr r \<Longrightarrow>
     \<exists>new. r = acc @ new \<and> subseq (map hourly_time new) (map snd items)
        \<and> (\<forall>e\<in>set new. \<exists>t. parse_timestamp w (hourly_time e) = Inr t
               \<and> now \<le> t \<and> t \<le> now + hours24)"
proof (induction items arbitrary: acc)
  case Nil
  then show ?case by simp
next
  case (Cons it rest)
  obtain idx time_str where it: "it = (idx, time_str)" by (cases it) auto
  from Cons.prems obtain t where t: "parse_timestamp w time_str = Inr t"
    unfolding it by (auto split: sum.splits)
  consider (early) "t < now" | (late) "\<not> t < now" "t > now + hours24"
    | (inside) "\<not> t < now" "\<not> t > now + hours24" by blast
  then show ?case
  proof cases
    case early
    with Cons.prems t have "hourly_loop w hdata now rest acc = Inr r" unfolding it by simp
    from Cons.IH[OF this] obtain new where
      n: "r = acc @ new" "subseq (map hourly_time new) (map snd rest)"
         "\<forall>e\<in>set new. \<exists>t. parse_timestamp w (hourly_time e) = Inr t \<and> now \<le> t \<and> t \<le> now + hours24"
      by blast
    have "subseq (map hourly_time new) (map snd (it # rest))"
      using n(2) by (simp add: list_emb_Cons)
    with n show ?thesis by blast
  next
    case late
    with Cons.prems t have "r = acc" unfolding it by simp
    then show ?thesis by (intro exI[of _ "[]"]) simp
  next
    case inside
    with Cons.prems t obtain e where e: "hourly_entry_at hdata idx time_str = Inr e"
      and l: "hourly_loop w hdata now rest (acc @ [e]) = Inr r"
      unfolding it by (auto split: sum.splits)
    from Cons.IH[OF l] obtain new where
      n: "r = (acc @ [e]) @ new" "subseq (map hourly_time new) (map snd rest)"
         "\<forall>e\<in>set new. \<exists>t. parse_timestamp w (hourly_time e) = Inr t \<and> now \<le> t \<and> t \<le> now + hours24"
      by blast
    have ht: "hourly_time e = time_str" by (rule hourly_entry_at_time[OF e])
    have "subseq (map hourly_time (e # new)) (map snd (it # rest))"
      using n(2) ht unfolding it by simp
    moreover have "\<forall>x\<in>set (e # new). \<exists>t. parse_timestamp w (hourly_time x) = Inr t
                     \<and> now \<le> t \<and> t \<le> now + hours24"
      using n(3) t ht inside by auto
    moreover have "r = acc @ (e # new)" using n(1) by simp
    ultimately show ?thesis by blast
  qed
qed

lemma map_snd_enumerate_list [simp]: "map snd (enumerate_list xs) = xs"
  by (simp add: enumerate_list_def)

lemma next_24_hours_Inr:
  assumes "next_24_hours w hdata = Inr hs"
  shows "\<exists>base_times items. py_get hdata (py ''time'') (JArr []) = Inr base_times
           \<and> py_iter base_times = Inr items
           \<and> subseq (map hourly_time hs) items
           \<and> (\<forall>e\<in>set hs. \<exists>t. parse_timestamp w (hourly_time e) = Inr t
                 \<and> utcnow w \<le> t \<and> t \<le> utcnow w + hours24)"
proof -
  from assms obtain base_times items where
    b: "py_get hdata (py ''time'') (JArr []) = Inr base_times"
    and i: "py_iter base_times = Inr items"
    and l: "hourly_loop w hdata (utcnow w) (enumerate_list items) [] = Inr hs"
    unfolding next_24_hours_def by (auto simp: bind_Inr_iff)
  from hourly_loop_result[OF l] b i show ?thesis by auto
qed

lemma summarize_False:
  "summarize w lat lon name days False payload = Inr s0 \<Longrightarrow> hourly_outlook s0 = None"
  unfolding summarize_def Let_def by (auto simp: bind_Inr_iff)

lemma summarize_True:
  "summarize w lat lon name days True payload =
     bind (summarize w lat lon name days False payload) (\<lambda>s0.
       if has_key payload (py ''hourly'')
       then bind (py_item payload (py ''hourly'')) (\<lambda>hourly_data.
            bind (next_24_hours w hourly_data) (\<lambda>hs. Inr (s0\<lparr>hourly_outlook := Some hs\<rparr>)))
       else Inr s0)"
  unfolding summarize_def Let_def bind_def by (auto split: sum.splits)

lemma summarize_hourly:
  assumes "summarize w lat lon name days h payload = Inr s" "hourly_outlook s = Some hs"
  shows "h \<and> has_key payload (py ''hourly'')
       \<and> (\<exists>hdata. py_item payload (py ''hourly'') = Inr hdata \<and> next_24_hours w hdata = Inr hs)"
  using assms unfolding summarize_def Let_def
  by (auto simp: bind_Inr_iff split: if_splits)

lemma hourly_loop_outside:
  assumes "\<forall>x\<in>set items. \<exists>u. parse_timestamp w (snd x) = Inr u \<and> (u < now \<or> now + hours24 < u)"
  shows "hourly_loop w hdata now items acc = Inr acc"
  using assms
proof (induction items)
  case Nil
  then show ?case by simp
next
  case (Cons it rest)
  obtain idx time_str where it: "it = (idx, time_str)" by (cases it) auto
  from Cons.prems obtain u where u: "parse_timestamp w time_str = Inr u" "u < now \<or> now + hours24 < u"
    unfolding it by auto
  have "hourly_loop w hdata now rest acc = Inr acc" using Cons by simp
  then show ?case unfolding it using u by auto
qed

lemma set_enumerate_list: "x \<in> set (enumerate_list xs) \<Longrightarrow> snd x \<in> set xs"
  unfolding enumerate_list_def by (cases x) (auto dest: set_zip_rightD)

section \<open>Location check\<close>




section \<open>Daily forecast\<close>

text \<open>
  C2: building the daily forecast never raises on a missing value; a series that is
  absent, or that does not reach the index, gives an explicit null. The default
  \<open>[None]\<close> of the source gives the null at index 0 only: with two dates and no other
  series, or with a series of one value, the second entry raises \<open>IndexError\<close>.
\<close>

theorem daily_missing_value_raises:
  "fst (fetch_weather_summary (served jaipur_hit dates_only no_feed 0) (py ''Jaipur'') 2 False)
     = Inl IndexError
   \<and> fst (fetch_weather_summary (served jaipur_hit short_series no_feed 0) (py ''Jaipur'') 2 False)
     = Inl IndexError"
  by (simp add: weather_eval)

text \<open>
  C4 (as the specification states it): the daily forecast of a successful call has
  exactly \<open>min(days, n)\<close> entries, \<open>n\<close> the number of upstream dates. With \<open>days = -1\<close> and
  two dates the call succeeds with no entry, and \<open>min(-1, 2)\<close> is \<open>-1\<close>.
\<close>

theorem daily_forecast_negative_days:
  "fst (fetch_weather_summary (served jaipur_hit dates_only no_feed 0) (py ''Jaipur'') (- 1) False)
     = Inr (jaipur_one_day\<lparr>daily_forecast := []\<rparr>)
   \<and> py_len two_dates = Inr 2
   \<and> int (length (daily_forecast (jaipur_one_day\<lparr>daily_forecast := []\<rparr>))) \<noteq> min (- 1) 2"
  by (simp add: weather_eval)

text \<open>
  C4 (amended): the daily forecast of a successful call has exactly
  \<open>max(0, min(days, n))\<close> entries, \<open>n\<close> the length of the upstream \<open>time\<close> value of the
  \<open>daily\<close> object, and entry \<open>i\<close> carries the upstream date at index \<open>i\<close>: the upstream
  order is kept.
\<close>

theorem daily_forecast_length:
  assumes "fst (fetch_weather_summary w loc days h) = Inr s"
  shows "\<exists>lat lon payload d times n.
           forecast_get w lat lon h = Inr payload
         \<and> py_get payload (py ''daily'') (JObj []) = Inr d
         \<and> py_get (py_or d (JObj [])) (py ''time'') (JArr []) = Inr times
         \<and> py_len times = Inr n
         \<and> int (length (daily_forecast s)) = max 0 (min days n)
         \<and> (\<forall>i<length (daily_forecast s). py_index times i = Inr (date (daily_forecast s ! i)))"
proof -
  from fetch_weather_summary_Inr[OF assms] obtain lat lon name payload where
    f: "forecast_get w lat lon h = Inr payload"
    and sm: "summarize w lat lon name days h payload = Inr s" by blast
  from summarize_Inr[OF sm] obtain d k where
    d: "py_get payload (py ''daily'') (JObj []) = Inr d"
    and k: "days_available days (py_or d (JObj [])) = Inr k"
    and l: "daily_loop (py_or d (JObj [])) (py_range k) [] = Inr (daily_forecast s)" by blast
  from k obtain times n where
    t: "py_get (py_or d (JObj [])) (py ''time'') (JArr []) = Inr times"
    and n: "py_len times = Inr n" and kn: "k = min days n"
    unfolding days_available_def by (auto simp: bind_Inr_iff)
  from daily_loop_result[OF l] have
    len: "length (daily_forecast s) = length (py_range k)"
    and ent: "\<And>i. i < length (py_range k) \<Longrightarrow>
                daily_entry_at (py_or d (JObj [])) (py_range k ! i) = Inr (daily_forecast s ! i)"
    by auto
  have len': "int (length (daily_forecast s)) = max 0 (min days n)"
    using len kn by (auto simp: py_range_def)
  have ord: "py_index times i = Inr (date (daily_forecast s ! i))"
    if "i < length (daily_forecast s)" for i
  proof -
    have i: "i < length (py_range k)" using that len by simp
    then have "py_range k ! i = i" by (simp add: py_range_def)
    with ent[OF i] have "daily_entry_at (py_or d (JObj [])) i = Inr (daily_forecast s ! i)" by simp
    from daily_entry_at_date[OF this] show ?thesis
      unfolding series_at_def using t by simp
  qed
  show ?thesis using f d t n len' ord by blast
qed

theorem daily_forecast_length_witness:
  "fst (fetch_weather_summary (served jaipur_hit dates_only no_feed 0) (py ''Jaipur'') 1 False)
     = Inr jaipur_one_day
   \<and> (\<exists>lat lon payload d times n.
           forecast_get (served jaipur_hit dates_only no_feed 0) lat lon False = Inr payload
         \<and> py_get payload (py ''daily'') (JObj []) = Inr d
         \<and> py_get (py_or d (JObj [])) (py ''time'') (JArr []) = Inr times
         \<and> py_len times = Inr n
         \<and> int (length (daily_forecast jaipur_one_day)) = max 0 (min 1 n)
         \<and> (\<forall>i<length (daily_forecast jaipur_one_day).
               py_index times i = Inr (date (daily_forecast jaipur_one_day ! i))))"
proof -
  have h: "fst (fetch_weather_summary (served jaipur_hit dates_only no_feed 0) (py ''Jaipur'') 1 False)
             = Inr jaipur_one_day"
    by (simp add: weather_eval)
  show ?thesis
    by (rule conjI [OF h daily_forecast_length [OF h]])
qed

lemma days_available_nonpositive:
  assumes "days \<le> 0" "days_available days' d = Inr k'"
  shows "\<exists>k. days_available days d = Inr k \<and> py_range k = []"
proof -
  from assms(2) obtain times n where
    "py_get d (py ''time'') (JArr []) = Inr times" "py_len times = Inr n"
    unfolding days_available_def by (auto simp: bind_Inr_iff)
  then have "days_available days d = Inr (min days n)"
    unfolding days_available_def by simp
  moreover have "py_range (min days n) = []"
    using assms(1) by (simp add: py_range_def)
  ultimately show ?thesis by blast
qed

lemma summarize_nonpositive:
  assumes "days \<le> 0" "summarize w lat lon name days' h payload = Inr s'"
  shows "summarize w lat lon name days h payload = Inr (s'\<lparr>daily_forecast := []\<rparr>)"
proof -
  from assms(2) obtain c d k' fc cc where
    c: "py_get payload (py ''current_weather'') (JObj []) = Inr c"
    and d: "py_get payload (py ''daily'') (JObj []) = Inr d"
    and k': "days_available days' (py_or d (JObj [])) = Inr k'"
    and fc: "daily_loop (py_or d (JObj [])) (py_range k') [] = Inr fc"
    and cc: "current_conditions_of (py_or c (JObj [])) = Inr cc"
    unfolding summarize_def by (auto simp: bind_Inr_iff)
  from days_available_nonpositive[OF assms(1) k'] obtain k where
    k: "days_available days (py_or d (JObj [])) = Inr k" "py_range k = []" by blast
  show ?thesis
    using assms(2) unfolding summarize_def Let_def
    by (auto simp: bind_Inr_iff c d k cc split: if_splits)
qed

text \<open>
  C9: a value of \<open>days\<close> that is zero or negative is not rejected. Whenever the call
  succeeds for some number of days, the call with \<open>days \<le> 0\<close> on the same responses
  succeeds as well, sends the same requests, and returns the same summary with an empty
  daily forecast.
\<close>

theorem nonpositive_days_empty_forecast:
  assumes "days \<le> 0" "fetch_weather_summary w loc days' h = (Inr s', evs)"
  shows "fetch_weather_summary w loc days h = (Inr (s'\<lparr>daily_forecast := []\<rparr>), evs)"
proof -
  have ne: "\<not> (loc = [] \<or> strip loc = [])"
    using assms(2) by (auto simp: fetch_weather_summary_def)
  obtain r evs0 where r: "resolve_location w loc = (r, evs0)"
    by (cases "resolve_location w loc") auto
  show ?thesis
  proof (cases r)
    case (Inl e)
    then show ?thesis using assms(2) ne r by (simp add: fetch_weather_summary_def)
  next
    case (Inr t)
    obtain lat lon name where t: "t = (lat, lon, name)" by (cases t) auto
    have b: "bind (forecast_get w lat lon h) (summarize w lat lon name days' h) = Inr s'"
      and e: "evs = evs0 @ [ForecastRequest lat lon h]"
      using assms(2) ne r Inr t by (simp_all add: fetch_weather_summary_def)
    from b obtain payload where p: "forecast_get w lat lon h = Inr payload"
      and sm: "summarize w lat lon name days' h payload = Inr s'"
      by (auto simp: bind_Inr_iff)
    show ?thesis
      using ne r Inr t p e summarize_nonpositive[OF assms(1) sm]
      by (simp add: fetch_weather_summary_def)
  qed
qed

theorem nonpositive_days_empty_forecast_witness:
  "(- 3 :: int) \<le> 0
   \<and> fetch_weather_summary (served jaipur_hit dates_only no_feed 0) (py ''Jaipur'') 1 False
       = (Inr jaipur_one_day, jaipur_requests False)
   \<and> fetch_weather_summary (served jaipur_hit dates_only no_feed 0) (py ''Jaipur'') (- 3) False
       = (Inr (jaipur_one_day\<lparr>daily_forecast := []\<rparr>), jaipur_requests False)"
proof -
  have d: "(- 3 :: int) \<le> 0" by simp
  have h: "fetch_weather_summary (served jaipur_hit dates_only no_feed 0) (py ''Jaipur'') 1 False
             = (Inr jaipur_one_day, jaipur_requests False)"
    by (simp add: weather_eval)
  show ?thesis
    using d h nonpositive_days_empty_forecast [OF d h] by blast
qed

section \<open>Feed parse failures\<close>

text \<open>
  C8: when parsing the body of the feed fails, \<open>fetch_safety_brief\<close> logs a warning with
  the location and the error and raises that same error again: the call ends with the
  parser's error, after the request and the log record, and with nothing else.
\<close>

theorem parse_failure_logged_and_reraised:
  assumes "strip loc \<noteq> []"
    and "news_get w (news_query loc) language (last (split_on 45 language))
           (replace (py ''-'') (py '':'') language) = Inr body"
    and "fromstring w body = Inl exc"
  shows "fetch_safety_brief w loc max_items language =
     (Inl exc, [NewsRequest (news_query loc) language (last (split_on 45 language))
                  (replace (py ''-'') (py '':'') language),
                LogWarning loc exc])"
proof -
  have "loc \<noteq> []" using assms(1) by auto
  then show ?thesis
    using assms by (simp add: fetch_safety_brief_def parse_headlines_def Let_def)
qed

theorem parse_failure_logged_and_reraised_witness:
  "strip (py ''Jaipur'') \<noteq> []
   \<and> news_get (served jaipur_hit JNull no_feed 0) (news_query (py ''Jaipur'')) (py ''en-US'')
       (last (split_on 45 (py ''en-US''))) (replace (py ''-'') (py '':'') (py ''en-US''))
       = Inr (py ''<rss/>'')
   \<and> fromstring (served jaipur_hit JNull no_feed 0) (py ''<rss/>'')
       = Inl (ParseError (py ''syntax error: line 1, column 0''))
   \<and> fetch_safety_brief (served jaipur_hit JNull no_feed 0) (py ''Jaipur'') 4 (py ''en-US'') =
       (Inl (ParseError (py ''syntax error: line 1, column 0'')),
        [NewsRequest (news_query (py ''Jaipur'')) (py ''en-US'')
           (last (split_on 45 (py ''en-US''))) (replace (py ''-'') (py '':'') (py ''en-US'')),
         LogWarning (py ''Jaipur'') (ParseError (py ''syntax error: line 1, column 0''))])"
proof -
  have a: "strip (py ''Jaipur'') \<noteq> []"
    by (simp add: strip_def lstrip_def rstrip_def isspace_def py_def)
  have b: "news_get (served jaipur_hit JNull no_feed 0) (news_query (py ''Jaipur'')) (py ''en-US'')
       (last (split_on 45 (py ''en-US''))) (replace (py ''-'') (py '':'') (py ''en-US''))
       = Inr (py ''<rss/>'')"
    by (simp add: served_def)
  have c: "fromstring (served jaipur_hit JNull no_feed 0) (py ''<rss/>'')
       = Inl (ParseError (py ''syntax error: line 1, column 0''))"
    by (simp add: served_def no_feed_def)
  show ?thesis
    using a b c parse_failure_logged_and_reraised [OF a b c, of 4] by blast
qed

section \<open>Hourly outlook\<close>

text \<open>
  C3 (as the specification states it): every entry of the hourly outlook has a timestamp
  \<open>t\<close> with \<open>now \<le> t < now + 24h\<close>. The loop ends at the first timestamp that is later
  than \<open>now + 24h\<close>, so a timestamp equal to \<open>now + 24h\<close> is kept: called at noon, the
  outlook holds the entry whose timestamp, converted to UTC, is noon of the next day.
\<close>

theorem hourly_outlook_keeps_upper_bound:
  "fst (fetch_weather_summary (served jaipur_hit hourly_series no_feed noon) (py ''Jaipur'') 1 True)
     = Inr (jaipur_one_day\<lparr>hourly_outlook := Some [at_noon, next_noon]\<rparr>)
   \<and> parse_timestamp (served jaipur_hit hourly_series no_feed noon) (hourly_time next_noon)
     = Inr (utcnow (served jaipur_hit hourly_series no_feed noon) + hours24)"
  by (simp add: hourly_eval)

text \<open>
  C3 (amended): every entry of the hourly outlook of a call that returns has a timestamp
  \<open>t\<close> (converted to UTC, a naive timestamp taken as UTC) with
  \<open>now \<le> t \<le> now + 24h\<close>, both bounds included, and the entries are in the upstream
  order: their timestamps form a subsequence of the upstream \<open>time\<close> series.
\<close>

theorem hourly_outlook_window:
  assumes "fst (fetch_weather_summary w loc days h) = Inr s" "hourly_outlook s = Some hs"
  shows "\<exists>lat lon payload hourly_data base_times items.
           forecast_get w lat lon True = Inr payload
         \<and> py_item payload (py ''hourly'') = Inr hourly_data
         \<and> py_get hourly_data (py ''time'') (JArr []) = Inr base_times
         \<and> py_iter base_times = Inr items
         \<and> subseq (map hourly_time hs) items
         \<and> (\<forall>e\<in>set hs. \<exists>t. parse_timestamp w (hourly_time e) = Inr t
               \<and> utcnow w \<le> t \<and> t \<le> utcnow w + hours24)"
proof -
  from fetch_weather_summary_Inr[OF assms(1)] obtain lat lon name payload where
    f: "forecast_get w lat lon h = Inr payload"
    and sm: "summarize w lat lon name days h payload = Inr s" by blast
  from summarize_hourly[OF sm assms(2)] obtain hdata where
    h: "h" and hdata: "py_item payload (py ''hourly'') = Inr hdata"
    and n: "next_24_hours w hdata = Inr hs" by blast
  have f': "forecast_get w lat lon True = Inr payload" using f h by simp
  from next_24_hours_Inr[OF n] f' hdata show ?thesis by blast
qed

theorem hourly_outlook_window_witness:
  "fst (fetch_weather_summary (served jaipur_hit hourly_series no_feed noon) (py ''Jaipur'') 1 True)
     = Inr (jaipur_one_day\<lparr>hourly_outlook := Some [at_noon, next_noon]\<rparr>)
   \<and> hourly_outlook (jaipur_one_day\<lparr>hourly_outlook := Some [at_noon, next_noon]\<rparr>)
     = Some [at_noon, next_noon]
   \<and> (\<exists>lat lon payload hourly_data base_times items.
           forecast_get (served jaipur_hit hourly_series no_feed noon) lat lon True = Inr payload
         \<and> py_item payload (py ''hourly'') = Inr hourly_data
         \<and> py_get hourly_data (py ''time'') (JArr []) = Inr base_times
         \<and> py_iter base_times = Inr items
         \<and> subseq (map hourly_time [at_noon, next_noon]) items
         \<and> (\<forall>e\<in>set [at_noon, next_noon].
               \<exists>t. parse_timestamp (served jaipur_hit hourly_series no_feed noon) (hourly_time e) = Inr t
               \<and> utcnow (served jaipur_hit hourly_series no_feed noon) \<le> t
               \<and> t \<le> utcnow (served jaipur_hit hourly_series no_feed noon) + hours24))"
proof -
  have a: "fst (fetch_weather_summary (served jaipur_hit hourly_series no_feed noon) (py ''Jaipur'') 1 True)
     = Inr (jaipur_one_day\<lparr>hourly_outlook := Some [at_noon, next_noon]\<rparr>)"
    by (simp add: hourly_eval)
  have b: "hourly_outlook (jaipur_one_day\<lparr>hourly_outlook := Some [at_noon, next_noon]\<rparr>)
     = Some [at_noon, next_noon]"
    by simp
  show ?thesis
    by (intro conjI, rule a, rule b, rule hourly_outlook_window [OF a b])
qed

text \<open>
  C10: with \<open>include_hourly\<close> set, and the rest of the summary built without error, the
  key \<open>hourly_outlook\<close> is absent exactly when the forecast payload has no \<open>hourly\<close> key;
  without that key the call returns the summary as it is; and when every upstream hourly
  timestamp lies outside the window, the call returns the summary with an empty hourly
  outlook, not an error.
\<close>

theorem hourly_outlook_attached:
  assumes loc: "strip loc \<noteq> []"
    and res: "fst (resolve_location w loc) = Inr (lat, lon, name)"
    and fc: "forecast_get w lat lon True = Inr payload"
    and base: "summarize w lat lon name days False payload = Inr s0"
  shows "(\<not> has_key payload (py ''hourly'') \<longrightarrow>
            fst (fetch_weather_summary w loc days True) = Inr s0 \<and> hourly_outlook s0 = None)
       \<and> (\<forall>s. fst (fetch_weather_summary w loc days True) = Inr s \<longrightarrow>
            (hourly_outlook s = None \<longleftrightarrow> \<not> has_key payload (py ''hourly'')))
       \<and> (\<forall>hourly_data base_times items.
            py_item payload (py ''hourly'') = Inr hourly_data
            \<and> py_get hourly_data (py ''time'') (JArr []) = Inr base_times
            \<and> py_iter base_times = Inr items
            \<and> (\<forall>t\<in>set items. \<exists>u. parse_timestamp w t = Inr u
                  \<and> (u < utcnow w \<or> utcnow w + hours24 < u))
            \<longrightarrow> fst (fetch_weather_summary w loc days True) = Inr (s0\<lparr>hourly_outlook := Some []\<rparr>))"
proof -
  have ne: "\<not> (loc = [] \<or> strip loc = [])" using loc by auto
  obtain evs where r: "resolve_location w loc = (Inr (lat, lon, name), evs)"
    using res by (cases "resolve_location w loc") auto
  have f: "fst (fetch_weather_summary w loc days True) = summarize w lat lon name days True payload"
    using ne r fc by (simp add: fetch_weather_summary_def)
  have none: "hourly_outlook s0 = None" by (rule summarize_False[OF base])
  have a: "\<not> has_key payload (py ''hourly'') \<longrightarrow>
            fst (fetch_weather_summary w loc days True) = Inr s0 \<and> hourly_outlook s0 = None"
    unfolding f summarize_True base using none by simp
  have b: "hourly_outlook s = None \<longleftrightarrow> \<not> has_key payload (py ''hourly'')"
    if "fst (fetch_weather_summary w loc days True) = Inr s" for s
    using that none unfolding f summarize_True base
    by (auto simp: bind_Inr_iff split: if_splits)
  have c: "fst (fetch_weather_summary w loc days True) = Inr (s0\<lparr>hourly_outlook := Some []\<rparr>)"
    if h: "py_item payload (py ''hourly'') = Inr hourly_data"
      and t: "py_get hourly_data (py ''time'') (JArr []) = Inr base_times"
      and i: "py_iter base_times = Inr items"
      and o: "\<forall>t\<in>set items. \<exists>u. parse_timestamp w t = Inr u \<and> (u < utcnow w \<or> utcnow w + hours24 < u)"
    for hourly_data base_times items
  proof -
    have k: "has_key payload (py ''hourly'')"
      using h by (cases payload) (auto split: option.splits)
    have "\<forall>x\<in>set (enumerate_list items). \<exists>u. parse_timestamp w (snd x) = Inr u
             \<and> (u < utcnow w \<or> utcnow w + hours24 < u)"
      using o set_enumerate_list by blast
    from hourly_loop_outside[OF this]
    have "next_24_hours w hourly_data = Inr []"
      by (simp add: next_24_hours_def t i)
    then show ?thesis unfolding f summarize_True base using k h by simp
  qed
  show ?thesis using a b c by blast
qed

theorem hourly_outlook_attached_witness:
  "strip (py ''Jaipur'') \<noteq> []
   \<and> fst (resolve_location (served jaipur_hit hourly_series no_feed later) (py ''Jaipur''))
       = Inr (JFloat 26.9, JFloat 75.8, py ''Jaipur, Rajasthan, India'')
   \<and> forecast_get (served jaipur_hit hourly_series no_feed later) (JFloat 26.9) (JFloat 75.8) True
       = Inr hourly_series
   \<and> summarize (served jaipur_hit hourly_series no_feed later) (JFloat 26.9) (JFloat 75.8)
        (py ''Jaipur, Rajasthan, India'') 1 False hourly_series = Inr jaipur_one_day
   \<and> has_key hourly_series (py ''hourly'')
   \<and> fst (fetch_weather_summary (served jaipur_hit hourly_series no_feed later) (py ''Jaipur'') 1 True)
       = Inr (jaipur_one_day\<lparr>hourly_outlook := Some []\<rparr>)"
proof -
  let ?w = "served jaipur_hit hourly_series no_feed later"
  have a: "strip (py ''Jaipur'') \<noteq> []" by (simp add: hourly_eval)
  have b: "fst (resolve_location ?w (py ''Jaipur''))
       = Inr (JFloat 26.9, JFloat 75.8, py ''Jaipur, Rajasthan, India'')"
    by (simp add: hourly_eval)
  have c: "forecast_get ?w (JFloat 26.9) (JFloat 75.8) True = Inr hourly_series"
    by (simp add: served_def)
  have d: "summarize ?w (JFloat 26.9) (JFloat 75.8)
        (py ''Jaipur, Rajasthan, India'') 1 False hourly_series = Inr jaipur_one_day"
    by (simp add: hourly_eval)
  have k: "has_key hourly_series (py ''hourly'')" by (simp add: hourly_eval)
  have t: "\<forall>hourly_data base_times items.
            py_item hourly_series (py ''hourly'') = Inr hourly_data
            \<and> py_get hourly_data (py ''time'') (JArr []) = Inr base_times
            \<and> py_iter base_times = Inr items
            \<and> (\<forall>t\<in>set items. \<exists>u. parse_timestamp ?w t = Inr u
                  \<and> (u < utcnow ?w \<or> utcnow ?w + hours24 < u))
            \<longrightarrow> fst (fetch_weather_summary ?w (py ''Jaipur'') 1 True)
                  = Inr (jaipur_one_day\<lparr>hourly_outlook := Some []\<rparr>)"
    using hourly_outlook_attached [OF a b c d] by blast
  have e: "fst (fetch_weather_summary ?w (py ''Jaipur'') 1 True)
       = Inr (jaipur_one_day\<lparr>hourly_outlook := Some []\<rparr>)"
    by (rule t [rule_format, of hourly_object "JArr hourly_times" hourly_times])
       (simp add: hourly_eval later_def)
  with a b c d k e show ?thesis by blast
qed


end
